theory Spec2Isabelle
  imports Main "HOL-Library.Product_Lexorder" "HOL-Library.Multiset"
begin

section \<open>Badminton court booking: the stored-procedure core\<close>

text \<open>
  The booking core of the repository lives in its SQL script
  (\<^verbatim>\<open>badminton_booking_system(all).sql\<close>): four tables, the functions
  \<^verbatim>\<open>is_slot_available\<close> and \<^verbatim>\<open>get_available_slots_count\<close>, the stored
  procedures \<^verbatim>\<open>sp_*\<close> and two triggers. The Express controllers only forward
  their parameters to the procedures; the one controller that adds behaviour of its own
  (\<^verbatim>\<open>getBookingHistory\<close>, which picks a default page size) is modelled as well.
  The second script, \<^verbatim>\<open>minimal_schema.sql\<close>, has the same tables and the same
  procedure bodies (each in a transaction of its own), but neither
  \<^verbatim>\<open>get_available_slots_count\<close> nor the trigger \<^verbatim>\<open>tr_booking_status_update\<close>;
  where that matters the variant is modelled beside the full script's.

  Conventions of the embedding:
  \<^item> a table is the list of its rows, in insertion order; a row is a record;
  \<^item> a nullable procedure parameter or column is an \<open>option\<close> (\<open>None\<close> is SQL NULL);
  \<^item> \<^verbatim>\<open>DATE\<close> is a day number, \<^verbatim>\<open>TIME\<close> a number of seconds and
    \<^verbatim>\<open>DECIMAL(10,2)\<close> a number of hundredths, all \<open>int\<close>;
  \<^item> \<^verbatim>\<open>CURDATE()\<close> is the parameter \<open>today\<close> of every operation that reads it;
  \<^item> a \<^verbatim>\<open>SIGNAL\<close>, a storage-engine error and an \<^verbatim>\<open>'error'\<close> status row are
    all \<open>Inl\<close> of an \<open>error\<close>; a failing statement is rolled back, so an
    operation that fails leaves the database as it was;
  \<^item> the \<^verbatim>\<open>created_at\<close>/\<^verbatim>\<open>updated_at\<close> wall-clock columns and the admins'
    passwords are left out; \<^verbatim>\<open>AUTO_INCREMENT\<close> is a counter per table that
    advances on every successful insert.
\<close>

subsection \<open>Tables\<close>

type_synonym date = int
type_synonym time = int
type_synonym money = int

datatype court_status = CourtActive | CourtMaintenance | CourtInactive
datatype slot_status = SlotActive | SlotInactive
datatype pay_status = Paid | Unpaid | Partial
datatype bk_status = Confirmed | Cancelled | Completed

record admin =
  admin_id :: int
  username :: string
  full_name :: string
  email :: string

record court =
  court_id :: int
  court_name :: string
  description :: "string option"
  price_per_session :: money
  c_status :: court_status

record time_slot =
  slot_id :: int
  start_time :: time
  end_time :: time
  slot_name :: string
  s_status :: slot_status

record booking =
  booking_id :: int
  b_court_id :: int
  b_slot_id :: int
  booking_date :: date
  customer_name :: "string option"
  customer_phone :: "string option"
  total_amount :: money
  payment_status :: "pay_status option"
  booking_status :: bk_status
  b_notes :: "string option"
  created_by :: int

record database =
  admins :: "admin list"
  courts :: "court list"
  time_slots :: "time_slot list"
  bookings :: "booking list"
  next_admin_id :: int
  next_court_id :: int
  next_slot_id :: int
  next_booking_id :: int

definition empty_db :: database where
  "empty_db = \<lparr>admins = [], courts = [], time_slots = [], bookings = [],
     next_admin_id = 1, next_court_id = 1, next_slot_id = 1, next_booking_id = 1\<rparr>"

text \<open>
  The failures of the core. The first group are the business rules, named as the
  specification's taxonomy names them; the messages of the script are:
  \<^item> \<open>SlotTaken\<close>: \<^verbatim>\<open>Slot sudah dibooking untuk tanggal tersebut\<close>;
  \<^item> \<open>ResourceUnavailable\<close>: \<^verbatim>\<open>Lapangan tidak ditemukan atau tidak aktif\<close> (procedure)
    and \<^verbatim>\<open>Lapangan tidak aktif\<close> (trigger);
  \<^item> \<open>PastDateRejected\<close>: \<^verbatim>\<open>Tanggal booking tidak boleh tanggal lampau\<close>;
  \<^item> \<open>WindowUnavailable\<close>: \<^verbatim>\<open>Slot waktu tidak aktif\<close>;
  \<^item> \<open>InvalidCustomer\<close>: \<^verbatim>\<open>Nama customer harus diisi\<close>;
  \<^item> \<open>TerminalState\<close>: \<^verbatim>\<open>Booking yang sudah dibatalkan tidak bisa diubah statusnya\<close>;
  \<^item> \<open>OverlapConflict\<close>, \<open>InvalidRange\<close>, \<open>NotFound\<close>, \<open>ConflictInUse\<close>: the
    overlap, ordering, not-found and cannot-modify/cannot-delete messages.
  The second group are the errors of the storage engine: a violated unique key
  (\<open>DuplicateKey\<close>, \<open>DuplicateName\<close> for \<^verbatim>\<open>court_name\<close>), a violated foreign
  key and a NULL in a \<^verbatim>\<open>NOT NULL\<close> column.
\<close>

datatype error =
    SlotTaken | ResourceUnavailable | PastDateRejected | WindowUnavailable
  | InvalidCustomer | TerminalState | OverlapConflict | InvalidRange
  | NotFound | ConflictInUse
  | DuplicateName | DuplicateKey | ForeignKeyViolation | NullViolation

definition coalesce :: "'a option \<Rightarrow> 'a \<Rightarrow> 'a" where
  "coalesce p v = (case p of None \<Rightarrow> v | Some x \<Rightarrow> x)"

definition coalesce_null :: "'a option \<Rightarrow> 'a option \<Rightarrow> 'a option" where
  "coalesce_null p v = (case p of None \<Rightarrow> v | Some x \<Rightarrow> Some x)"

text \<open>\<^verbatim>\<open>TRIM\<close> removes the leading and the trailing spaces.\<close>

definition trim_sql :: "string \<Rightarrow> string" where
  "trim_sql s = rev (dropWhile (\<lambda>c. c = CHR '' '') (rev (dropWhile (\<lambda>c. c = CHR '' '') s)))"

subsection \<open>Availability functions\<close>

definition is_slot_available :: "database \<Rightarrow> int \<Rightarrow> int \<Rightarrow> date \<Rightarrow> bool" where
  "is_slot_available db p_court_id p_slot_id p_booking_date =
     (let slot_count = length (filter (\<lambda>b. b_court_id b = p_court_id
                                          \<and> b_slot_id b = p_slot_id
                                          \<and> booking_date b = p_booking_date
                                          \<and> booking_status b \<noteq> Cancelled) (bookings db))
      in slot_count = 0)"

definition get_available_slots_count :: "database \<Rightarrow> int \<Rightarrow> date \<Rightarrow> int" where
  "get_available_slots_count db p_court_id p_booking_date =
     (let total_slots = int (length (filter (\<lambda>ts. s_status ts = SlotActive) (time_slots db)));
          booked_slots = int (length (filter (\<lambda>b. b_court_id b = p_court_id
                                          \<and> booking_date b = p_booking_date
                                          \<and> booking_status b \<noteq> Cancelled) (bookings db)))
      in total_slots - booked_slots)"

text \<open>
  \<^verbatim>\<open>sp_get_available_time_slots\<close>: the active slots by start time, each with
  \<^verbatim>\<open>is_available\<close>. (The order of slots with equal start times is not fixed by the
  query; the model keeps table order among them.)
\<close>

definition sp_get_available_time_slots :: "database \<Rightarrow> int \<Rightarrow> date \<Rightarrow> (time_slot \<times> bool) list" where
  "sp_get_available_time_slots db p_court_id p_booking_date =
     map (\<lambda>ts. (ts, is_slot_available db p_court_id (slot_id ts) p_booking_date))
       (sort_key start_time (filter (\<lambda>ts. s_status ts = SlotActive) (time_slots db)))"

subsection \<open>Reservation ledger\<close>

text \<open>
  The trigger \<^verbatim>\<open>tr_validate_booking_insert\<close> (BEFORE INSERT). A scalar subquery
  on a missing row is NULL, and \<^verbatim>\<open>NULL != 'active'\<close> is not true, so a missing
  court or slot passes the two status checks (the foreign keys reject it afterwards).
  Assigning the NULL price of a missing court to \<^verbatim>\<open>total_amount\<close> violates its
  \<^verbatim>\<open>NOT NULL\<close>.
\<close>

definition tr_validate_booking_insert :: "date \<Rightarrow> database \<Rightarrow> booking \<Rightarrow> error + booking" where
  "tr_validate_booking_insert today db NEW =
     (if booking_date NEW < today then Inl PastDateRejected
      else if (case find (\<lambda>c. court_id c = b_court_id NEW) (courts db) of
                 None \<Rightarrow> False | Some c \<Rightarrow> c_status c \<noteq> CourtActive)
           then Inl ResourceUnavailable
      else if (case find (\<lambda>ts. slot_id ts = b_slot_id NEW) (time_slots db) of
                 None \<Rightarrow> False | Some ts \<Rightarrow> s_status ts \<noteq> SlotActive)
           then Inl WindowUnavailable
      else if (case customer_name NEW of None \<Rightarrow> True | Some n \<Rightarrow> trim_sql n = [])
           then Inl InvalidCustomer
      else if total_amount NEW = 0 then
             (case find (\<lambda>c. court_id c = b_court_id NEW) (courts db) of
                None \<Rightarrow> Inl NullViolation
              | Some c \<Rightarrow> Inr (NEW\<lparr>total_amount := price_per_session c\<rparr>))
      else Inr NEW)"

text \<open>
  \<^verbatim>\<open>INSERT INTO bookings\<close>: the trigger, then the constraints of the table (the three
  foreign keys and \<^verbatim>\<open>UNIQUE KEY unique_booking (court_id, slot_id, booking_date)\<close>, which
  has no condition on the status), then the row is appended under the next id. Which of
  the two storage errors is reported when both constraints are violated is the storage
  engine's choice; the model reports the foreign key.
\<close>

definition insert_booking :: "date \<Rightarrow> database \<Rightarrow> booking \<Rightarrow> error + database \<times> int" where
  "insert_booking today db NEW =
     (case tr_validate_booking_insert today db NEW of
        Inl e \<Rightarrow> Inl e
      | Inr row \<Rightarrow>
          if find (\<lambda>c. court_id c = b_court_id row) (courts db) = None
             \<or> find (\<lambda>ts. slot_id ts = b_slot_id row) (time_slots db) = None
             \<or> find (\<lambda>a. admin_id a = created_by row) (admins db) = None
          then Inl ForeignKeyViolation
          else if find (\<lambda>b. b_court_id b = b_court_id row \<and> b_slot_id b = b_slot_id row
                            \<and> booking_date b = booking_date row) (bookings db) \<noteq> None
          then Inl DuplicateKey
          else Inr (db\<lparr>bookings := bookings db @ [row\<lparr>booking_id := next_booking_id db\<rparr>],
                       next_booking_id := next_booking_id db + 1\<rparr>,
                    next_booking_id db))"

text \<open>
  \<^verbatim>\<open>sp_create_booking\<close>. \<^verbatim>\<open>v_price\<close> is declared with default 0.00, and a
  \<^verbatim>\<open>SELECT ... INTO\<close> that finds no row leaves its variable unchanged, so
  \<^verbatim>\<open>v_price\<close> is NULL only if the column is.
\<close>

definition sp_create_booking ::
  "date \<Rightarrow> database \<Rightarrow> int \<Rightarrow> int \<Rightarrow> date \<Rightarrow> string option \<Rightarrow> string option
     \<Rightarrow> pay_status option \<Rightarrow> string option \<Rightarrow> int \<Rightarrow> error + database \<times> int" where
  "sp_create_booking today db p_court_id p_slot_id p_booking_date p_customer_name
       p_customer_phone p_payment_status p_notes p_created_by =
     (if \<not> is_slot_available db p_court_id p_slot_id p_booking_date then Inl SlotTaken
      else
        let v_price = (case find (\<lambda>c. court_id c = p_court_id \<and> c_status c = CourtActive) (courts db) of
                         None \<Rightarrow> Some 0
                       | Some c \<Rightarrow> Some (price_per_session c))
        in case v_price of
             None \<Rightarrow> Inl ResourceUnavailable
           | Some price \<Rightarrow>
               insert_booking today db
                 \<lparr>booking_id = 0, b_court_id = p_court_id, b_slot_id = p_slot_id,
                  booking_date = p_booking_date, customer_name = p_customer_name,
                  customer_phone = p_customer_phone, total_amount = price,
                  payment_status = p_payment_status, booking_status = Confirmed,
                  b_notes = p_notes, created_by = p_created_by\<rparr>)"

text \<open>
  The trigger \<^verbatim>\<open>tr_booking_status_update\<close> (AFTER UPDATE, for each row), and an
  \<^verbatim>\<open>UPDATE bookings SET ... WHERE ...\<close> statement: every row that the condition
  selects is rewritten and the trigger sees the old and the new row; if it signals, the
  statement is rolled back.
\<close>

definition tr_booking_status_update :: "booking \<Rightarrow> booking \<Rightarrow> error + unit" where
  "tr_booking_status_update OLD NEW =
     (if booking_status OLD = Cancelled \<and> booking_status NEW \<noteq> Cancelled
      then Inl TerminalState else Inr ())"

fun update_bookings :: "(booking \<Rightarrow> bool) \<Rightarrow> (booking \<Rightarrow> booking) \<Rightarrow> booking list \<Rightarrow> error + booking list" where
  "update_bookings cond set_cols [] = Inr []"
| "update_bookings cond set_cols (b # bs) =
     (if cond b then
        (case tr_booking_status_update b (set_cols b) of
           Inl e \<Rightarrow> Inl e
         | Inr _ \<Rightarrow> (case update_bookings cond set_cols bs of
                      Inl e \<Rightarrow> Inl e
                    | Inr bs' \<Rightarrow> Inr (set_cols b # bs')))
      else (case update_bookings cond set_cols bs of
              Inl e \<Rightarrow> Inl e
            | Inr bs' \<Rightarrow> Inr (b # bs')))"

definition sp_update_booking_status ::
  "database \<Rightarrow> int \<Rightarrow> pay_status option \<Rightarrow> bk_status option \<Rightarrow> int \<Rightarrow> error + database" where
  "sp_update_booking_status db p_booking_id p_payment_status p_booking_status p_updated_by =
     (let v_exists = length (filter (\<lambda>b. booking_id b = p_booking_id) (bookings db))
      in if v_exists = 0 then Inl NotFound
         else (case update_bookings (\<lambda>b. booking_id b = p_booking_id)
                      (\<lambda>b. b\<lparr>payment_status := coalesce_null p_payment_status (payment_status b),
                             booking_status := coalesce p_booking_status (booking_status b)\<rparr>)
                      (bookings db) of
                 Inl e \<Rightarrow> Inl e
               | Inr bs \<Rightarrow> Inr (db\<lparr>bookings := bs\<rparr>)))"

text \<open>
  \<^verbatim>\<open>sp_update_booking_status\<close> under \<^verbatim>\<open>minimal_schema.sql\<close>, where no trigger
  follows the update.
\<close>

definition sp_update_booking_status_minimal ::
  "database \<Rightarrow> int \<Rightarrow> pay_status option \<Rightarrow> bk_status option \<Rightarrow> int \<Rightarrow> error + database" where
  "sp_update_booking_status_minimal db p_booking_id p_payment_status p_booking_status p_updated_by =
     (let v_exists = length (filter (\<lambda>b. booking_id b = p_booking_id) (bookings db))
      in if v_exists = 0 then Inl NotFound
         else Inr (db\<lparr>bookings := map (\<lambda>b. if booking_id b = p_booking_id
                        then b\<lparr>payment_status := coalesce_null p_payment_status (payment_status b),
                               booking_status := coalesce p_booking_status (booking_status b)\<rparr>
                        else b) (bookings db)\<rparr>))"

definition sp_update_booking_details ::
  "database \<Rightarrow> int \<Rightarrow> string option \<Rightarrow> string option \<Rightarrow> string option \<Rightarrow> error + database" where
  "sp_update_booking_details db p_booking_id p_customer_name p_customer_phone p_notes =
     (let v_exists = length (filter (\<lambda>b. booking_id b = p_booking_id) (bookings db))
      in if v_exists = 0 then Inl NotFound
         else (case update_bookings (\<lambda>b. booking_id b = p_booking_id)
                      (\<lambda>b. b\<lparr>customer_name := coalesce_null p_customer_name (customer_name b),
                             customer_phone := coalesce_null p_customer_phone (customer_phone b),
                             b_notes := coalesce_null p_notes (b_notes b)\<rparr>)
                      (bookings db) of
                 Inl e \<Rightarrow> Inl e
               | Inr bs \<Rightarrow> Inr (db\<lparr>bookings := bs\<rparr>)))"

definition sp_cancel_booking :: "database \<Rightarrow> int \<Rightarrow> error + database" where
  "sp_cancel_booking db p_booking_id =
     (let v_exists = length (filter (\<lambda>b. booking_id b = p_booking_id) (bookings db))
      in if v_exists = 0 then Inl NotFound
         else (case update_bookings (\<lambda>b. booking_id b = p_booking_id)
                      (\<lambda>b. b\<lparr>booking_status := Cancelled\<rparr>)
                      (bookings db) of
                 Inl e \<Rightarrow> Inl e
               | Inr bs \<Rightarrow> Inr (db\<lparr>bookings := bs\<rparr>)))"

subsection \<open>Resource registry\<close>

text \<open>
  \<^verbatim>\<open>court_name\<close> is \<^verbatim>\<open>UNIQUE\<close>; names are compared as they are written.
\<close>

definition sp_create_court ::
  "database \<Rightarrow> string \<Rightarrow> string option \<Rightarrow> money \<Rightarrow> court_status option \<Rightarrow> error + database \<times> int" where
  "sp_create_court db p_court_name p_description p_price_per_session p_status =
     (if find (\<lambda>c. court_name c = p_court_name) (courts db) \<noteq> None then Inl DuplicateName
      else Inr (db\<lparr>courts := courts db @
                      [\<lparr>court_id = next_court_id db, court_name = p_court_name,
                        description = p_description, price_per_session = p_price_per_session,
                        c_status = coalesce p_status CourtActive\<rparr>],
                   next_court_id := next_court_id db + 1\<rparr>,
                next_court_id db))"

definition sp_update_court ::
  "database \<Rightarrow> int \<Rightarrow> string option \<Rightarrow> string option \<Rightarrow> money option \<Rightarrow> court_status option
     \<Rightarrow> error + database" where
  "sp_update_court db p_court_id p_court_name p_description p_price_per_session p_status =
     (let v_exists = length (filter (\<lambda>c. court_id c = p_court_id) (courts db))
      in if v_exists = 0 then Inl NotFound
         else if (case p_court_name of
                    None \<Rightarrow> False
                  | Some n \<Rightarrow> find (\<lambda>c. court_id c \<noteq> p_court_id \<and> court_name c = n) (courts db) \<noteq> None)
         then Inl DuplicateName
         else Inr (db\<lparr>courts := map (\<lambda>c. if court_id c = p_court_id
                        then c\<lparr>court_name := coalesce p_court_name (court_name c),
                               description := coalesce_null p_description (description c),
                               price_per_session := coalesce p_price_per_session (price_per_session c),
                               c_status := coalesce p_status (c_status c)\<rparr>
                        else c) (courts db)\<rparr>))"

text \<open>
  \<^verbatim>\<open>sp_delete_court\<close>. The foreign key of \<^verbatim>\<open>bookings.court_id\<close> is declared
  \<^verbatim>\<open>ON DELETE CASCADE\<close>: deleting the court deletes the bookings that reference it.
\<close>

definition sp_delete_court :: "database \<Rightarrow> int \<Rightarrow> error + database" where
  "sp_delete_court db p_court_id =
     (let v_exists = length (filter (\<lambda>c. court_id c = p_court_id) (courts db))
      in if v_exists = 0 then Inl NotFound
         else
           let v_booking_count = length (filter (\<lambda>b. b_court_id b = p_court_id
                                                     \<and> booking_status b \<noteq> Cancelled) (bookings db))
           in if v_booking_count > 0 then Inl ConflictInUse
              else Inr (db\<lparr>courts := filter (\<lambda>c. court_id c \<noteq> p_court_id) (courts db),
                           bookings := filter (\<lambda>b. b_court_id b \<noteq> p_court_id) (bookings db)\<rparr>))"

subsection \<open>Slot registry\<close>

text \<open>
  The overlap condition of \<^verbatim>\<open>sp_create_time_slot\<close> and \<^verbatim>\<open>sp_update_time_slot\<close>,
  the three disjuncts in the order of the script.
\<close>

definition time_overlap :: "time \<Rightarrow> time \<Rightarrow> time_slot \<Rightarrow> bool" where
  "time_overlap p_start_time p_end_time ts =
     ((p_start_time \<ge> start_time ts \<and> p_start_time < end_time ts) \<or>
      (p_end_time > start_time ts \<and> p_end_time \<le> end_time ts) \<or>
      (p_start_time \<le> start_time ts \<and> p_end_time \<ge> end_time ts))"

text \<open>
  \<^verbatim>\<open>sp_create_time_slot\<close>: the overlap check comes before the ordering check; the
  insert is subject to \<^verbatim>\<open>UNIQUE KEY unique_time_slot (start_time, end_time)\<close>.
\<close>

definition sp_create_time_slot ::
  "database \<Rightarrow> time \<Rightarrow> time \<Rightarrow> string \<Rightarrow> slot_status option \<Rightarrow> error + database \<times> int" where
  "sp_create_time_slot db p_start_time p_end_time p_slot_name p_status =
     (let v_overlap_count = length (filter (\<lambda>ts. s_status ts = SlotActive
                                               \<and> time_overlap p_start_time p_end_time ts) (time_slots db))
      in if v_overlap_count > 0 then Inl OverlapConflict
         else if p_start_time \<ge> p_end_time then Inl InvalidRange
         else if find (\<lambda>ts. start_time ts = p_start_time \<and> end_time ts = p_end_time) (time_slots db) \<noteq> None
         then Inl DuplicateKey
         else Inr (db\<lparr>time_slots := time_slots db @
                         [\<lparr>slot_id = next_slot_id db, start_time = p_start_time, end_time = p_end_time,
                           slot_name = p_slot_name, s_status = coalesce p_status SlotActive\<rparr>],
                      next_slot_id := next_slot_id db + 1\<rparr>,
                   next_slot_id db))"

definition sp_update_time_slot ::
  "date \<Rightarrow> database \<Rightarrow> int \<Rightarrow> time option \<Rightarrow> time option \<Rightarrow> string option \<Rightarrow> slot_status option
     \<Rightarrow> error + database" where
  "sp_update_time_slot today db p_slot_id p_start_time p_end_time p_slot_name p_status =
     (let v_exists = length (filter (\<lambda>ts. slot_id ts = p_slot_id) (time_slots db))
      in if v_exists = 0 then Inl NotFound
         else
           let v_booking_count = length (filter (\<lambda>b. b_slot_id b = p_slot_id
                                                     \<and> booking_status b \<noteq> Cancelled
                                                     \<and> booking_date b \<ge> today) (bookings db))
           in if (p_start_time \<noteq> None \<or> p_end_time \<noteq> None \<or> p_status = Some SlotInactive)
                 \<and> v_booking_count > 0 then Inl ConflictInUse
              else
                (case (p_start_time, p_end_time) of
                   (Some st, Some en) \<Rightarrow>
                     if st \<ge> en then Inl InvalidRange
                     else
                       let v_overlap_count = length (filter (\<lambda>ts. slot_id ts \<noteq> p_slot_id
                                                       \<and> s_status ts = SlotActive
                                                       \<and> time_overlap st en ts) (time_slots db))
                       in if v_overlap_count > 0 then Inl OverlapConflict
                          else if find (\<lambda>ts. slot_id ts \<noteq> p_slot_id \<and> start_time ts = st
                                            \<and> end_time ts = en) (time_slots db) \<noteq> None
                          then Inl DuplicateKey
                          else Inr (db\<lparr>time_slots := map (\<lambda>ts. if slot_id ts = p_slot_id
                                         then ts\<lparr>start_time := coalesce p_start_time (start_time ts),
                                                 end_time := coalesce p_end_time (end_time ts),
                                                 slot_name := coalesce p_slot_name (slot_name ts),
                                                 s_status := coalesce p_status (s_status ts)\<rparr>
                                         else ts) (time_slots db)\<rparr>)
                 | _ \<Rightarrow>
                     Inr (db\<lparr>time_slots := map (\<lambda>ts. if slot_id ts = p_slot_id
                                then ts\<lparr>slot_name := coalesce p_slot_name (slot_name ts),
                                        s_status := coalesce p_status (s_status ts)\<rparr>
                                else ts) (time_slots db)\<rparr>)))"

definition sp_delete_time_slot :: "database \<Rightarrow> int \<Rightarrow> error + database" where
  "sp_delete_time_slot db p_slot_id =
     (let v_exists = length (filter (\<lambda>ts. slot_id ts = p_slot_id) (time_slots db))
      in if v_exists = 0 then Inl NotFound
         else
           let v_booking_count = length (filter (\<lambda>b. b_slot_id b = p_slot_id) (bookings db))
           in if v_booking_count > 0 then Inl ConflictInUse
              else Inr (db\<lparr>time_slots := filter (\<lambda>ts. slot_id ts \<noteq> p_slot_id) (time_slots db),
                           bookings := filter (\<lambda>b. b_slot_id b \<noteq> p_slot_id) (bookings db)\<rparr>))"

subsection \<open>Principals\<close>

definition sp_create_admin :: "database \<Rightarrow> string \<Rightarrow> string \<Rightarrow> string \<Rightarrow> error + database \<times> int" where
  "sp_create_admin db p_username p_full_name p_email =
     (if find (\<lambda>a. username a = p_username \<or> email a = p_email) (admins db) \<noteq> None
      then Inl DuplicateKey
      else Inr (db\<lparr>admins := admins db @
                      [\<lparr>admin_id = next_admin_id db, username = p_username,
                        full_name = p_full_name, email = p_email\<rparr>],
                   next_admin_id := next_admin_id db + 1\<rparr>,
                next_admin_id db))"

subsection \<open>Booking history\<close>

text \<open>
  \<^verbatim>\<open>sp_get_booking_history\<close> builds its query from the optional filters: the inner
  join of the bookings with their court, slot and admin, the filters that are not NULL,
  \<^verbatim>\<open>ORDER BY b.booking_date DESC, ts.start_time ASC\<close>, and \<^verbatim>\<open>LIMIT\<close> (with
  \<^verbatim>\<open>OFFSET\<close>) only when \<^verbatim>\<open>p_limit\<close> is not NULL. The order of rows with equal
  sort keys is not fixed by the query; the model keeps table order among them.
\<close>

type_synonym joined_row = "booking \<times> court \<times> time_slot \<times> admin"

record history_row =
  h_booking_id :: int
  h_court_name :: string
  h_slot_name :: string
  h_booking_date :: date
  h_customer_name :: "string option"
  h_customer_phone :: "string option"
  h_total_amount :: money
  h_payment_status :: "pay_status option"
  h_booking_status :: bk_status
  h_notes :: "string option"
  h_created_by_name :: string

definition history_join :: "database \<Rightarrow> joined_row list" where
  "history_join db =
     concat (map (\<lambda>b.
       case find (\<lambda>c. court_id c = b_court_id b) (courts db) of
         None \<Rightarrow> []
       | Some c \<Rightarrow>
          (case find (\<lambda>ts. slot_id ts = b_slot_id b) (time_slots db) of
             None \<Rightarrow> []
           | Some ts \<Rightarrow>
              (case find (\<lambda>a. admin_id a = created_by b) (admins db) of
                 None \<Rightarrow> []
               | Some a \<Rightarrow> [(b, c, ts, a)]))) (bookings db))"

definition history_filter :: "int option \<Rightarrow> date option \<Rightarrow> date option \<Rightarrow> joined_row \<Rightarrow> bool" where
  "history_filter p_court_id p_start_date p_end_date r =
     (case r of (b, c, ts, a) \<Rightarrow>
        (case p_court_id of None \<Rightarrow> True | Some i \<Rightarrow> b_court_id b = i) \<and>
        (case p_start_date of None \<Rightarrow> True | Some d \<Rightarrow> booking_date b \<ge> d) \<and>
        (case p_end_date of None \<Rightarrow> True | Some d \<Rightarrow> booking_date b \<le> d))"

definition history_key :: "joined_row \<Rightarrow> int \<times> int" where
  "history_key r = (case r of (b, c, ts, a) \<Rightarrow> (- booking_date b, start_time ts))"

definition history_select ::
  "database \<Rightarrow> int option \<Rightarrow> date option \<Rightarrow> date option \<Rightarrow> nat option \<Rightarrow> nat option \<Rightarrow> joined_row list" where
  "history_select db p_court_id p_start_date p_end_date p_limit p_offset =
     (let ordered = sort_key history_key
                      (filter (history_filter p_court_id p_start_date p_end_date) (history_join db))
      in case p_limit of
           None \<Rightarrow> ordered
         | Some l \<Rightarrow> (case p_offset of
                        None \<Rightarrow> take l ordered
                      | Some off \<Rightarrow> take l (drop off ordered)))"

definition history_columns :: "joined_row \<Rightarrow> history_row" where
  "history_columns r = (case r of (b, c, ts, a) \<Rightarrow>
     \<lparr>h_booking_id = booking_id b, h_court_name = court_name c, h_slot_name = slot_name ts,
      h_booking_date = booking_date b, h_customer_name = customer_name b,
      h_customer_phone = customer_phone b, h_total_amount = total_amount b,
      h_payment_status = payment_status b, h_booking_status = booking_status b,
      h_notes = b_notes b, h_created_by_name = full_name a\<rparr>)"

definition sp_get_booking_history ::
  "database \<Rightarrow> int option \<Rightarrow> date option \<Rightarrow> date option \<Rightarrow> nat option \<Rightarrow> nat option \<Rightarrow> history_row list" where
  "sp_get_booking_history db p_court_id p_start_date p_end_date p_limit p_offset =
     map history_columns (history_select db p_court_id p_start_date p_end_date p_limit p_offset)"

text \<open>
  The controller \<^verbatim>\<open>getBookingHistory\<close>: a query parameter that is absent (or empty)
  is \<open>None\<close>; \<^verbatim>\<open>limit\<close> then is 50 and \<^verbatim>\<open>offset\<close> 0, and the procedure is always
  called with both. The response carries the rows and \<^verbatim>\<open>meta: {limit, offset, count}\<close>.
\<close>

definition getBookingHistory ::
  "database \<Rightarrow> int option \<Rightarrow> date option \<Rightarrow> date option \<Rightarrow> nat option \<Rightarrow> nat option
     \<Rightarrow> history_row list \<times> nat \<times> nat \<times> nat" where
  "getBookingHistory db q_court_id q_start_date q_end_date q_limit q_offset =
     (let limit = (case q_limit of Some l \<Rightarrow> l | None \<Rightarrow> 50);
          offset = (case q_offset of Some off \<Rightarrow> off | None \<Rightarrow> 0);
          rows = sp_get_booking_history db q_court_id q_start_date q_end_date (Some limit) (Some offset)
      in (rows, limit, offset, length rows))"

subsection \<open>Calls and runs\<close>

text \<open>
  The mutating operations as one datatype, so that a property can be stated for every
  operation, over every run. A run starts from the empty database; between two calls
  the calendar day may advance. A call that fails leaves the database as it was.
\<close>

datatype call =
    CreateAdmin string string string
  | CreateCourt string "string option" money "court_status option"
  | UpdateCourt int "string option" "string option" "money option" "court_status option"
  | DeleteCourt int
  | CreateTimeSlot time time string "slot_status option"
  | UpdateTimeSlot int "time option" "time option" "string option" "slot_status option"
  | DeleteTimeSlot int
  | CreateBooking int int date "string option" "string option" "pay_status option" "string option" int
  | UpdateBookingStatus int "pay_status option" "bk_status option" int
  | UpdateBookingDetails int "string option" "string option" "string option"
  | CancelBooking int

fun perform :: "date \<Rightarrow> database \<Rightarrow> call \<Rightarrow> error + database" where
  "perform today db (CreateAdmin u f e) = map_sum id fst (sp_create_admin db u f e)"
| "perform today db (CreateCourt n d p s) = map_sum id fst (sp_create_court db n d p s)"
| "perform today db (UpdateCourt i n d p s) = sp_update_court db i n d p s"
| "perform today db (DeleteCourt i) = sp_delete_court db i"
| "perform today db (CreateTimeSlot st en n s) = map_sum id fst (sp_create_time_slot db st en n s)"
| "perform today db (UpdateTimeSlot i st en n s) = sp_update_time_slot today db i st en n s"
| "perform today db (DeleteTimeSlot i) = sp_delete_time_slot db i"
| "perform today db (CreateBooking c s d n ph pay nt by) =
     map_sum id fst (sp_create_booking today db c s d n ph pay nt by)"
| "perform today db (UpdateBookingStatus i pay st by) = sp_update_booking_status db i pay st by"
| "perform today db (UpdateBookingDetails i n ph nt) = sp_update_booking_details db i n ph nt"
| "perform today db (CancelBooking i) = sp_cancel_booking db i"

definition exec :: "date \<Rightarrow> database \<Rightarrow> call \<Rightarrow> database" where
  "exec today db c = (case perform today db c of Inl e \<Rightarrow> db | Inr db' \<Rightarrow> db')"

datatype event = Call call | NextDay

fun step :: "date \<times> database \<Rightarrow> event \<Rightarrow> date \<times> database" where
  "step (today, db) (Call c) = (today, exec today db c)"
| "step (today, db) NextDay = (today + 1, db)"

definition run :: "date \<Rightarrow> event list \<Rightarrow> date \<times> database" where
  "run day0 evs = foldl step (day0, empty_db) evs"

subsection \<open>A small run, used to instantiate the results\<close>

text \<open>
  One admin, one court at 50000.00 a session, the slot 08:00--10:00, and a booking of that
  court and slot for day 10, made on day 10; then the booking is cancelled.
\<close>

definition setup_events :: "event list" where
  "setup_events =
     [Call (CreateAdmin ''admin'' ''Administrator'' ''admin@badminton.com''),
      Call (CreateCourt ''Lapangan 1'' None 5000000 None),
      Call (CreateTimeSlot 28800 36000 ''Pagi 1'' None)]"

definition db_setup :: database where
  "db_setup = snd (run 10 setup_events)"

definition db_booked :: database where
  "db_booked = exec 10 db_setup
     (CreateBooking 1 1 10 (Some ''Alice'') (Some ''0812'') (Some Unpaid) None 1)"

definition db_cancelled :: database where
  "db_cancelled = exec 10 db_booked (CancelBooking 1)"

definition alice :: booking where
  "alice = \<lparr>booking_id = 1, b_court_id = 1, b_slot_id = 1, booking_date = 10,
            customer_name = Some ''Alice'', customer_phone = Some ''0812'',
            total_amount = 5000000, payment_status = Some Unpaid,
            booking_status = Confirmed, b_notes = None, created_by = 1\<rparr>"

text \<open>
  A row before and after an update: the same reservation, and still cancelled if it was.
\<close>

definition stays_cancelled :: "booking \<Rightarrow> booking \<Rightarrow> bool" where
  "stays_cancelled old new =
     (booking_id new = booking_id old \<and>
      (booking_status old = Cancelled \<longrightarrow> booking_status new = Cancelled))"

subsection \<open>The unique key of the bookings table\<close>

text \<open>
  \<^verbatim>\<open>UNIQUE KEY unique_booking (court_id, slot_id, booking_date)\<close>: no two rows of the
  table agree on the three columns, whatever their status.
\<close>

definition booking_key :: "booking \<Rightarrow> int \<times> int \<times> date" where
  "booking_key b = (b_court_id b, b_slot_id b, booking_date b)"

definition unique_booking :: "database \<Rightarrow> bool" where
  "unique_booking db = distinct (map booking_key (bookings db))"

subsection \<open>Overlap of windows, as the specification words it\<close>

text \<open>
  The half-open test of the specification (\<open>new.start < existing.end\<close> and
  \<open>new.end > existing.start\<close>), to be compared with \<open>time_overlap\<close> of the
  script, and the invariant it is meant to give: no two active windows overlap.
\<close>

definition half_open_overlap :: "time \<Rightarrow> time \<Rightarrow> time_slot \<Rightarrow> bool" where
  "half_open_overlap new_start new_end existing =
     (new_start < end_time existing \<and> new_end > start_time existing)"

fun pairwise_apart :: "time_slot list \<Rightarrow> bool" where
  "pairwise_apart [] = True"
| "pairwise_apart (a # rest) =
     (list_all (\<lambda>b. \<not> half_open_overlap (start_time a) (end_time a) b) rest \<and> pairwise_apart rest)"

definition no_active_overlap :: "database \<Rightarrow> bool" where
  "no_active_overlap db = pairwise_apart (filter (\<lambda>ts. s_status ts = SlotActive) (time_slots db))"

definition well_ordered_slots :: "database \<Rightarrow> bool" where
  "well_ordered_slots db = list_all (\<lambda>ts. start_time ts < end_time ts) (time_slots db)"

text \<open>
  Two further runs. In the first, a slot is deactivated, a second slot is created across
  it, and the first is activated again. In the second, a slot is deactivated on the day
  after the date of its only booking.
\<close>

definition reactivate_events :: "event list" where
  "reactivate_events =
     [Call (CreateTimeSlot 28800 36000 ''A'' None),
      Call (UpdateTimeSlot 1 None None None (Some SlotInactive)),
      Call (CreateTimeSlot 32400 39600 ''B'' (Some SlotActive)),
      Call (UpdateTimeSlot 1 None None None (Some SlotActive))]"

definition deactivate_events :: "event list" where
  "deactivate_events =
     [Call (CreateAdmin ''admin'' ''Administrator'' ''admin@badminton.com''),
      Call (CreateCourt ''Lapangan 1'' None 5000000 None),
      Call (CreateTimeSlot 28800 36000 ''Pagi 1'' None),
      Call (CreateBooking 1 1 10 (Some ''Alice'') (Some ''0812'') (Some Unpaid) None 1),
      NextDay,
      Call (UpdateTimeSlot 1 None None None (Some SlotInactive))]"

subsection \<open>Booking history, as the specification words it\<close>

text \<open>
  The order of the history (date descending, then start time ascending) as a relation on
  rows; the foreign keys of the bookings table; and a run that makes 51 bookings, for the
  days 10 to 60.
\<close>

definition history_order :: "joined_row \<Rightarrow> joined_row \<Rightarrow> bool" where
  "history_order r r' =
     (case r of (b, c, ts, a) \<Rightarrow> case r' of (b', c', ts', a') \<Rightarrow>
        booking_date b > booking_date b'
        \<or> (booking_date b = booking_date b' \<and> start_time ts \<le> start_time ts'))"

definition references_resolve :: "database \<Rightarrow> bool" where
  "references_resolve db =
     list_all (\<lambda>b. b_court_id b \<in> set (map court_id (courts db))
                \<and> b_slot_id b \<in> set (map slot_id (time_slots db))
                \<and> created_by b \<in> set (map admin_id (admins db))) (bookings db)"

definition many_events :: "event list" where
  "many_events = setup_events @
     map (\<lambda>k. Call (CreateBooking 1 1 (10 + int k) (Some ''Alice'') (Some ''0812'') (Some Unpaid) None 1))
       [0..<51]"

definition db_many :: database where
  "db_many = snd (run 10 many_events)"

section \<open>Properties\<close>

subsection \<open>The run\<close>

lemmas procedure_defs =
  sp_create_admin_def sp_create_court_def sp_update_court_def sp_delete_court_def
  sp_create_time_slot_def sp_update_time_slot_def sp_delete_time_slot_def
  sp_create_booking_def insert_booking_def tr_validate_booking_insert_def trim_sql_def
  sp_update_booking_status_def sp_update_booking_details_def sp_cancel_booking_def
  tr_booking_status_update_def is_slot_available_def time_overlap_def
  coalesce_def coalesce_null_def exec_def run_def empty_db_def

lemma db_setup_value:
  "db_setup =
     \<lparr>admins = [\<lparr>admin_id = 1, username = ''admin'', full_name = ''Administrator'',
                  email = ''admin@badminton.com''\<rparr>],
      courts = [\<lparr>court_id = 1, court_name = ''Lapangan 1'', description = None,
                  price_per_session = 5000000, c_status = CourtActive\<rparr>],
      time_slots = [\<lparr>slot_id = 1, start_time = 28800, end_time = 36000,
                      slot_name = ''Pagi 1'', s_status = SlotActive\<rparr>],
      bookings = [], next_admin_id = 2, next_court_id = 2, next_slot_id = 2,
      next_booking_id = 1\<rparr>"
  by (simp add: db_setup_def setup_events_def procedure_defs)

lemma db_booked_value:
  "db_booked = db_setup\<lparr>bookings := [alice], next_booking_id := 2\<rparr>"
  by (simp add: db_booked_def db_setup_value alice_def procedure_defs)

lemma db_cancelled_value:
  "db_cancelled = db_setup\<lparr>bookings := [alice\<lparr>booking_status := Cancelled\<rparr>], next_booking_id := 2\<rparr>"
  by (simp add: db_cancelled_def db_booked_value db_setup_value alice_def procedure_defs)

subsection \<open>Updates of the bookings table\<close>

lemma update_bookings_Inr:
  "update_bookings cond f bs = Inr bs' \<Longrightarrow> bs' = map (\<lambda>b. if cond b then f b else b) bs"
  by (induction bs arbitrary: bs') (auto split: if_splits sum.splits)

lemma update_bookings_pass:
  "update_bookings cond f bs = Inr bs' \<Longrightarrow> b \<in> set bs \<Longrightarrow> cond b \<Longrightarrow>
     booking_status b = Cancelled \<Longrightarrow> booking_status (f b) = Cancelled"
  by (induction bs arbitrary: bs')
     (auto simp: tr_booking_status_update_def split: if_splits sum.splits)

lemma update_bookings_Inl:
  "update_bookings cond f bs = Inl e \<Longrightarrow> e = TerminalState"
  by (induction bs)
     (auto simp: tr_booking_status_update_def split: if_splits sum.splits)

lemma update_bookings_total:
  "(\<And>b. b \<in> set bs \<Longrightarrow> cond b \<Longrightarrow> booking_status b = Cancelled \<Longrightarrow> booking_status (f b) = Cancelled)
     \<Longrightarrow> update_bookings cond f bs = Inr (map (\<lambda>b. if cond b then f b else b) bs)"
  by (induction bs) (auto simp: tr_booking_status_update_def)

lemma update_bookings_reject:
  assumes "b \<in> set bs" "cond b" "booking_status b = Cancelled" "booking_status (f b) \<noteq> Cancelled"
  shows "update_bookings cond f bs = Inl TerminalState"
proof (cases "update_bookings cond f bs")
  case (Inl e)
  then show ?thesis using update_bookings_Inl by blast
next
  case (Inr bs')
  then show ?thesis using update_bookings_pass assms by blast
qed

lemma exists_filter: "b \<in> set bs \<Longrightarrow> P b \<Longrightarrow> length (filter P bs) \<noteq> 0"
  by (auto simp: filter_empty_conv)

subsection \<open>C1: status updates of a cancelled reservation\<close>

text \<open>
  C1 states that every \<^verbatim>\<open>updateStatus\<close> call on a cancelled reservation fails with
  \<open>TerminalState\<close> and changes nothing. The guard of the script is the trigger
  \<^verbatim>\<open>tr_booking_status_update\<close>, which signals only when the old status is cancelled
  and the new one is not. On the cancelled booking of the run, setting the payment
  status to paid succeeds and is stored, and setting the status to cancelled again
  succeeds.
\<close>

theorem cancelled_payment_update_counterexample:
  "map booking_status (bookings db_cancelled) = [Cancelled]
   \<and> map payment_status (bookings db_cancelled) = [Some Unpaid]
   \<and> sp_update_booking_status db_cancelled 1 (Some Paid) None 1 \<noteq> Inl TerminalState
   \<and> map payment_status (bookings (exec 10 db_cancelled (UpdateBookingStatus 1 (Some Paid) None 1)))
       = [Some Paid]
   \<and> sp_update_booking_status db_cancelled 1 None (Some Cancelled) 1 = Inr db_cancelled"
  by (simp add: db_cancelled_value db_setup_value alice_def procedure_defs)

text \<open>
  C1, as the script has it. For a cancelled reservation with id \<open>p\<close>, a call of
  \<^verbatim>\<open>sp_update_booking_status\<close> that supplies a booking status other than cancelled fails
  with \<open>TerminalState\<close>; a call that supplies no booking status, or cancelled, succeeds
  and stores the supplied payment status. In both cases every reservation that was
  cancelled before the call is cancelled after it.
\<close>

theorem cancelled_update_status:
  assumes "b \<in> set (bookings db)" and "booking_id b = p" and "booking_status b = Cancelled"
  shows "(if st = None \<or> st = Some Cancelled
          then \<exists>db'. sp_update_booking_status db p pay st by = Inr db' \<and>
                 bookings db' = map (\<lambda>r. if booking_id r = p
                     then r\<lparr>payment_status := coalesce_null pay (payment_status r),
                            booking_status := coalesce st (booking_status r)\<rparr> else r) (bookings db)
          else sp_update_booking_status db p pay st by = Inl TerminalState)
       \<and> list_all2 stays_cancelled (bookings db)
            (bookings (exec today db (UpdateBookingStatus p pay st by)))"
proof -
  let ?f = "\<lambda>r. r\<lparr>payment_status := coalesce_null pay (payment_status r),
                            booking_status := coalesce st (booking_status r)\<rparr>"
  let ?c = "\<lambda>r. booking_id r = p"
  have ex: "length (filter ?c (bookings db)) \<noteq> 0"
    using assms exists_filter[of b "bookings db" ?c] by simp
  have A: "st = None \<or> st = Some Cancelled \<Longrightarrow>
        update_bookings ?c ?f (bookings db) = Inr (map (\<lambda>b. if ?c b then ?f b else b) (bookings db))"
    by (rule update_bookings_total) (auto simp: coalesce_def)
  have B: "\<not> (st = None \<or> st = Some Cancelled) \<Longrightarrow> update_bookings ?c ?f (bookings db) = Inl TerminalState"
    using assms by (intro update_bookings_reject[of b]) (auto simp: coalesce_def)
  have first: "(if st = None \<or> st = Some Cancelled
          then \<exists>db'. sp_update_booking_status db p pay st by = Inr db' \<and>
                 bookings db' = map (\<lambda>r. if booking_id r = p then ?f r else r) (bookings db)
          else sp_update_booking_status db p pay st by = Inl TerminalState)"
    using ex A B by (auto simp: sp_update_booking_status_def Let_def)
  have second: "list_all2 stays_cancelled (bookings db)
            (bookings (exec today db (UpdateBookingStatus p pay st by)))"
  proof (cases "update_bookings ?c ?f (bookings db)")
    case (Inl e)
    then show ?thesis
      by (auto simp: exec_def sp_update_booking_status_def Let_def stays_cancelled_def list_all2_same)
  next
    case (Inr bs')
    have "bs' = map (\<lambda>b. if ?c b then ?f b else b) (bookings db)"
      using update_bookings_Inr[OF Inr] .
    moreover have "\<And>r. r \<in> set (bookings db) \<Longrightarrow> ?c r \<Longrightarrow> booking_status r = Cancelled
        \<Longrightarrow> booking_status (?f r) = Cancelled"
      using update_bookings_pass[OF Inr] by blast
    ultimately show ?thesis using Inr
      by (auto simp: exec_def sp_update_booking_status_def Let_def stays_cancelled_def
            list_all2_map2 list_all2_same)
  qed
  show ?thesis using first second by blast
qed

theorem cancelled_update_status_witness:
  "sp_update_booking_status db_cancelled 1 (Some Paid) (Some Confirmed) 1 = Inl TerminalState
   \<and> list_all2 stays_cancelled (bookings db_cancelled)
        (bookings (exec 10 db_cancelled (UpdateBookingStatus 1 (Some Paid) (Some Confirmed) 1)))"
  using cancelled_update_status [of "alice\<lparr>booking_status := Cancelled\<rparr>" db_cancelled 1
          "Some Confirmed" "Some Paid" 1 10]
  by (simp add: db_cancelled_value alice_def)

text \<open>
  Under \<^verbatim>\<open>minimal_schema.sql\<close> nothing guards the transition: the cancelled booking
  of the run is confirmed again.
\<close>

lemma minimal_schema_reopens:
  "sp_update_booking_status_minimal db_cancelled 1 None (Some Confirmed) 1 = Inr db_booked"
  by (simp add: sp_update_booking_status_minimal_def db_cancelled_value db_booked_value
        db_setup_value alice_def coalesce_def coalesce_null_def)

subsection \<open>C3: a booking date in the past\<close>

text \<open>
  C3 states that a \<^verbatim>\<open>create\<close> call with a date before today fails with
  \<open>PastDateRejected\<close>, the date being checked before everything else. In the script the
  date is checked by the insert trigger, and \<^verbatim>\<open>sp_create_booking\<close> asks
  \<^verbatim>\<open>is_slot_available\<close> before it inserts: on day 11, a call for the triple of the
  confirmed booking of day 10 fails with \<open>SlotTaken\<close>.
\<close>

theorem past_date_slot_taken_counterexample:
  "(10::int) < 11
   \<and> map booking_status (bookings db_booked) = [Confirmed]
   \<and> sp_create_booking 11 db_booked 1 1 10 (Some ''Bob'') None (Some Unpaid) None 1 = Inl SlotTaken"
  by (simp add: db_booked_value db_setup_value alice_def procedure_defs)

text \<open>
  C3, as the script has it. A \<^verbatim>\<open>create\<close> call whose date is before today always fails
  and inserts nothing. It fails with \<open>SlotTaken\<close> when a reservation that is not
  cancelled holds the triple, and with \<open>PastDateRejected\<close> otherwise, whatever the
  court, the slot, the customer name and the creator are: the date is the first check
  of the trigger, before the court, the slot and the name, and before the constraints of
  the table.
\<close>

theorem create_past_date:
  assumes "p_booking_date < today"
  shows "sp_create_booking today db c s p_booking_date n ph pay nt by =
           (if is_slot_available db c s p_booking_date then Inl PastDateRejected else Inl SlotTaken)
         \<and> exec today db (CreateBooking c s p_booking_date n ph pay nt by) = db"
  using assms
  by (simp add: sp_create_booking_def insert_booking_def tr_validate_booking_insert_def exec_def
        split: option.splits)

theorem create_past_date_witness:
  "(9::int) < 10
   \<and> sp_create_booking 10 db_setup 1 1 9 (Some ''Alice'') None None None 1 = Inl PastDateRejected
   \<and> sp_create_booking 11 db_booked 2 7 10 None None None None 5 = Inl PastDateRejected"
  using create_past_date [of 9 10 db_setup 1 1 "Some ''Alice''" None None None 1]
        create_past_date [of 10 11 db_booked 2 7 None None None None 5]
  by (simp add: db_booked_value db_setup_value alice_def is_slot_available_def)

subsection \<open>C8: the price of a reservation\<close>

lemma find_conj:
  "find P xs = Some y \<Longrightarrow> Q y \<Longrightarrow> find (\<lambda>x. P x \<and> Q x) xs = Some y"
  by (induction xs) (auto split: if_splits)

text \<open>
  C8: \<^verbatim>\<open>sp_create_booking\<close> takes no amount; the reservation it stores carries the
  price that the referenced court has when the call is made, and \<^verbatim>\<open>sp_update_court\<close>
  (which may change the price) leaves the bookings table as it is.
\<close>

theorem default_price:
  "(\<forall>db' i. sp_create_booking today db c s d n ph pay nt by = Inr (db', i) \<longrightarrow>
      (\<exists>crt. find (\<lambda>x. court_id x = c) (courts db) = Some crt \<and>
         bookings db' = bookings db @
           [\<lparr>booking_id = i, b_court_id = c, b_slot_id = s, booking_date = d,
             customer_name = n, customer_phone = ph, total_amount = price_per_session crt,
             payment_status = pay, booking_status = Confirmed, b_notes = nt, created_by = by\<rparr>]))
   \<and> bookings (exec today db (UpdateCourt ci cn cd cp cs)) = bookings db"
proof -
  have upd: "bookings (exec today db (UpdateCourt ci cn cd cp cs)) = bookings db"
    by (simp add: exec_def sp_update_court_def Let_def)
  have cre: "\<exists>crt. find (\<lambda>x. court_id x = c) (courts db) = Some crt \<and>
         bookings db' = bookings db @
           [\<lparr>booking_id = i, b_court_id = c, b_slot_id = s, booking_date = d,
             customer_name = n, customer_phone = ph, total_amount = price_per_session crt,
             payment_status = pay, booking_status = Confirmed, b_notes = nt, created_by = by\<rparr>]"
    if ok: "sp_create_booking today db c s d n ph pay nt by = Inr (db', i)" for db' i
  proof (cases "find (\<lambda>x. court_id x = c) (courts db)")
    case None
    then show ?thesis using ok
      by (auto simp: sp_create_booking_def insert_booking_def tr_validate_booking_insert_def Let_def
            split: if_splits option.splits sum.splits)
  next
    case (Some crt)
    have act: "c_status crt = CourtActive" using ok Some
      by (auto simp: sp_create_booking_def insert_booking_def tr_validate_booking_insert_def Let_def
            split: if_splits option.splits sum.splits)
    have f2: "find (\<lambda>x. court_id x = c \<and> c_status x = CourtActive) (courts db) = Some crt"
      using find_conj[OF Some, of "\<lambda>x. c_status x = CourtActive"] act by simp
    show ?thesis using ok Some f2
      by (auto simp: sp_create_booking_def insert_booking_def tr_validate_booking_insert_def Let_def
            split: if_splits option.splits sum.splits)
  qed
  show ?thesis using upd cre by blast
qed

theorem default_price_witness:
  "sp_create_booking 10 db_setup 1 1 10 (Some ''Alice'') (Some ''0812'') (Some Unpaid) None 1
     = Inr (db_booked, 1)
   \<and> map price_per_session (courts db_setup) = [5000000]
   \<and> map total_amount (bookings db_booked) = [5000000]
   \<and> map price_per_session (courts (exec 10 db_booked (UpdateCourt 1 None None (Some 7000000) None)))
       = [7000000]
   \<and> map total_amount (bookings (exec 10 db_booked (UpdateCourt 1 None None (Some 7000000) None)))
       = [5000000]"
  using default_price [of 10 db_setup 1 1 10 "Some ''Alice''" "Some ''0812''" "Some Unpaid" None 1
          1 None None "Some 7000000" None]
        default_price [of 10 db_booked 1 1 10 "Some ''Alice''" "Some ''0812''" "Some Unpaid" None 1
          1 None None "Some 7000000" None]
  by (simp add: db_booked_value db_setup_value alice_def procedure_defs)

subsection \<open>C2: a cancelled reservation and its triple\<close>

text \<open>
  The unique key holds in the empty database and every call keeps it, so it holds after
  every run.
\<close>

lemma update_bookings_keys:
  "update_bookings cond f bs = Inr bs' \<Longrightarrow> (\<And>b. booking_key (f b) = booking_key b)
     \<Longrightarrow> map booking_key bs' = map booking_key bs"
  by (drule update_bookings_Inr) (simp add: comp_def)

lemma find_None_key:
  "find (\<lambda>b. b_court_id b = c \<and> b_slot_id b = s \<and> booking_date b = d) bs = None
     \<Longrightarrow> (c, s, d) \<notin> set (map booking_key bs)"
  by (auto simp: find_None_iff booking_key_def)

lemma unique_booking_exec: "unique_booking db \<Longrightarrow> unique_booking (exec today db call)"
proof (cases call)
  case (CreateBooking c s d n ph pay nt cby)
  assume u: "unique_booking db"
  show ?thesis
  proof (cases "sp_create_booking today db c s d n ph pay nt cby")
    case (Inl e)
    then show ?thesis using u CreateBooking by (simp add: exec_def)
  next
    case (Inr r)
    then obtain row where
      "find (\<lambda>b. b_court_id b = c \<and> b_slot_id b = s \<and> booking_date b = d) (bookings db) = None"
      "bookings (fst r) = bookings db @ [row]" "booking_key row = (c, s, d)"
      by (auto simp: sp_create_booking_def insert_booking_def tr_validate_booking_insert_def
            booking_key_def Let_def split: sum.splits option.splits if_splits)
    then show ?thesis using u CreateBooking Inr find_None_key[of c s d "bookings db"]
      by (auto simp: exec_def unique_booking_def)
  qed
qed (auto simp: exec_def unique_booking_def sp_create_admin_def sp_create_court_def
       sp_update_court_def sp_delete_court_def sp_create_time_slot_def sp_update_time_slot_def
       sp_delete_time_slot_def sp_update_booking_status_def sp_update_booking_details_def
       sp_cancel_booking_def Let_def booking_key_def distinct_map_filter
       split: sum.splits option.splits if_splits dest!: update_bookings_keys)

lemma unique_booking_run: "unique_booking (snd (run day0 evs))"
proof -
  have "unique_booking (snd w) \<Longrightarrow> unique_booking (snd (foldl step w evs))" for w
  proof (induction evs arbitrary: w)
    case Nil
    then show ?case by simp
  next
    case (Cons ev evs)
    obtain t db where w: "w = (t, db)" by (cases w)
    have "unique_booking (snd (step w ev))"
      using Cons.prems w unique_booking_exec by (cases ev) auto
    then show ?case using Cons.IH by simp
  qed
  then show ?thesis by (simp add: run_def empty_db_def unique_booking_def)
qed

lemma unique_no_other:
  assumes "distinct (map booking_key bs)" "b \<in> set bs" "b' \<in> set bs" "booking_key b' = booking_key b"
  shows "b' = b"
  using assms by (meson distinct_map inj_onD)

text \<open>
  C2: in a state (with the unique key) that holds a cancelled reservation for a triple,
  \<^verbatim>\<open>is_slot_available\<close> is true for the triple and every row of
  \<^verbatim>\<open>sp_get_available_time_slots\<close> for that slot says available; yet
  \<^verbatim>\<open>sp_create_booking\<close> for the triple fails, whatever its other arguments, and
  not with \<open>SlotTaken\<close>: the availability check passes, and the insert is rejected
  by the trigger or by a constraint of the table (by the unique key, when nothing else
  is wrong, as in the run).
\<close>

theorem cancelled_blocks_rebooking:
  assumes "unique_booking db" and "b \<in> set (bookings db)" and "booking_status b = Cancelled"
      and "b_court_id b = c" and "b_slot_id b = s" and "booking_date b = d"
  shows "is_slot_available db c s d
       \<and> (\<forall>r \<in> set (sp_get_available_time_slots db c d). slot_id (fst r) = s \<longrightarrow> snd r)
       \<and> (\<exists>e. sp_create_booking today db c s d n ph pay nt cby = Inl e \<and> e \<noteq> SlotTaken)"
proof -
  have none: "filter (\<lambda>x. b_court_id x = c \<and> b_slot_id x = s \<and> booking_date x = d
                 \<and> booking_status x \<noteq> Cancelled) (bookings db) = []"
  proof -
    have "x = b" if "x \<in> set (bookings db)" "b_court_id x = c" "b_slot_id x = s" "booking_date x = d" for x
      using unique_no_other[of "bookings db" b x] assms that
      by (simp add: unique_booking_def booking_key_def)
    then show ?thesis using assms(3) by (auto simp: filter_empty_conv)
  qed
  have avail: "is_slot_available db c s d"
    using none by (simp add: is_slot_available_def)
  have listing: "\<forall>r \<in> set (sp_get_available_time_slots db c d). slot_id (fst r) = s \<longrightarrow> snd r"
    using avail by (auto simp: sp_get_available_time_slots_def)
  have dup: "find (\<lambda>x. b_court_id x = c \<and> b_slot_id x = s \<and> booking_date x = d) (bookings db) \<noteq> None"
    using assms by (auto simp: find_None_iff)
  have create: "\<exists>e. sp_create_booking today db c s d n ph pay nt cby = Inl e \<and> e \<noteq> SlotTaken"
    using avail dup
    by (auto simp: sp_create_booking_def insert_booking_def tr_validate_booking_insert_def Let_def
          split: option.splits)
  show ?thesis using avail listing create by blast
qed

theorem cancelled_blocks_rebooking_witness:
  "unique_booking db_cancelled
   \<and> map booking_status (bookings db_cancelled) = [Cancelled]
   \<and> is_slot_available db_cancelled 1 1 10
   \<and> map snd (sp_get_available_time_slots db_cancelled 1 10) = [True]
   \<and> sp_create_booking 10 db_cancelled 1 1 10 (Some ''Bob'') None (Some Unpaid) None 1 = Inl DuplicateKey"
  using cancelled_blocks_rebooking [of db_cancelled "alice\<lparr>booking_status := Cancelled\<rparr>" 1 1 10
          10 "Some ''Bob''" None "Some Unpaid" None 1]
  by (simp add: db_cancelled_value db_setup_value alice_def unique_booking_def booking_key_def
        sp_get_available_time_slots_def procedure_defs)

subsection \<open>C7: the two deletion rules\<close>

lemma filter_none: "length (filter P xs) = 0 \<Longrightarrow> filter (\<lambda>x. \<not> P x) xs = xs"
  by (induction xs) (auto split: if_splits)

text \<open>
  C7: deleting an existing slot fails with \<open>ConflictInUse\<close> exactly when some
  reservation, of any status, references it; deleting an existing court fails with
  \<open>ConflictInUse\<close> exactly when some reservation that is not cancelled references it,
  and succeeds otherwise. In the run: with the booking confirmed both deletions fail; with
  it cancelled the slot still cannot be deleted and the court can.
\<close>

theorem deletion_rules:
  assumes "ts \<in> set (time_slots db)" and "slot_id ts = s"
      and "crt \<in> set (courts db)" and "court_id crt = c"
  shows "sp_delete_time_slot db s =
           (if \<exists>b \<in> set (bookings db). b_slot_id b = s then Inl ConflictInUse
            else Inr (db\<lparr>time_slots := filter (\<lambda>x. slot_id x \<noteq> s) (time_slots db)\<rparr>))
       \<and> sp_delete_court db c =
           (if \<exists>b \<in> set (bookings db). b_court_id b = c \<and> booking_status b \<noteq> Cancelled
            then Inl ConflictInUse
            else Inr (db\<lparr>courts := filter (\<lambda>x. court_id x \<noteq> c) (courts db),
                         bookings := filter (\<lambda>b. b_court_id b \<noteq> c) (bookings db)\<rparr>))"
proof -
  have es: "length (filter (\<lambda>x. slot_id x = s) (time_slots db)) \<noteq> 0"
    using assms(1,2) exists_filter[of ts "time_slots db" "\<lambda>x. slot_id x = s"] by simp
  have ec: "length (filter (\<lambda>x. court_id x = c) (courts db)) \<noteq> 0"
    using assms(3,4) exists_filter[of crt "courts db" "\<lambda>x. court_id x = c"] by simp
  have slot: "sp_delete_time_slot db s =
           (if \<exists>b \<in> set (bookings db). b_slot_id b = s then Inl ConflictInUse
            else Inr (db\<lparr>time_slots := filter (\<lambda>x. slot_id x \<noteq> s) (time_slots db)\<rparr>))"
  proof (cases "\<exists>b \<in> set (bookings db). b_slot_id b = s")
    case True
    then have "length (filter (\<lambda>b. b_slot_id b = s) (bookings db)) \<noteq> 0"
      by (auto simp: filter_empty_conv)
    then show ?thesis using True es by (simp add: sp_delete_time_slot_def Let_def)
  next
    case False
    then have z: "length (filter (\<lambda>b. b_slot_id b = s) (bookings db)) = 0"
      by (auto simp: filter_empty_conv)
    have "filter (\<lambda>b. b_slot_id b \<noteq> s) (bookings db) = bookings db"
      using filter_none[OF z] by simp
    then show ?thesis using False es z by (simp add: sp_delete_time_slot_def Let_def)
  qed
  have court: "sp_delete_court db c =
           (if \<exists>b \<in> set (bookings db). b_court_id b = c \<and> booking_status b \<noteq> Cancelled
            then Inl ConflictInUse
            else Inr (db\<lparr>courts := filter (\<lambda>x. court_id x \<noteq> c) (courts db),
                         bookings := filter (\<lambda>b. b_court_id b \<noteq> c) (bookings db)\<rparr>))"
  proof (cases "\<exists>b \<in> set (bookings db). b_court_id b = c \<and> booking_status b \<noteq> Cancelled")
    case True
    then have "length (filter (\<lambda>b. b_court_id b = c \<and> booking_status b \<noteq> Cancelled) (bookings db)) \<noteq> 0"
      by (auto simp: filter_empty_conv)
    then show ?thesis using True ec by (simp add: sp_delete_court_def Let_def)
  next
    case False
    then have "length (filter (\<lambda>b. b_court_id b = c \<and> booking_status b \<noteq> Cancelled) (bookings db)) = 0"
      by (auto simp: filter_empty_conv)
    then show ?thesis using False ec by (simp add: sp_delete_court_def Let_def)
  qed
  show ?thesis using slot court by simp
qed

theorem deletion_rules_witness:
  "sp_delete_court db_booked 1 = Inl ConflictInUse
   \<and> sp_delete_time_slot db_booked 1 = Inl ConflictInUse
   \<and> map booking_status (bookings db_cancelled) = [Cancelled]
   \<and> sp_delete_time_slot db_cancelled 1 = Inl ConflictInUse
   \<and> sp_delete_court db_cancelled 1 = Inr (db_cancelled\<lparr>courts := [], bookings := []\<rparr>)"
  using deletion_rules [of "hd (time_slots db_booked)" db_booked 1 "hd (courts db_booked)" 1]
        deletion_rules [of "hd (time_slots db_cancelled)" db_cancelled 1 "hd (courts db_cancelled)" 1]
  by (simp add: db_booked_value db_cancelled_value db_setup_value alice_def)


subsection \<open>C5: rows of the bookings table\<close>

text \<open>
  C5 states that no operation physically deletes a reservation. The foreign key of
  \<^verbatim>\<open>bookings.court_id\<close> is \<^verbatim>\<open>ON DELETE CASCADE\<close>, and \<^verbatim>\<open>sp_delete_court\<close>
  deletes a court whose reservations are all cancelled: deleting the court of the run
  after its booking was cancelled deletes the booking.
\<close>

theorem cascade_delete_counterexample:
  "map booking_id (bookings db_cancelled) = [1]
   \<and> sp_delete_court db_cancelled 1 = Inr (exec 10 db_cancelled (DeleteCourt 1))
   \<and> bookings (exec 10 db_cancelled (DeleteCourt 1)) = []"
  by (simp add: db_cancelled_value db_setup_value alice_def procedure_defs)

lemma update_bookings_ids:
  "update_bookings cond f bs = Inr bs' \<Longrightarrow> (\<And>b. booking_id (f b) = booking_id b)
     \<Longrightarrow> map booking_id bs' = map booking_id bs"
  by (drule update_bookings_Inr) (simp add: comp_def)

text \<open>
  C5, as the script has it. Every call other than a court deletion keeps every
  reservation (the ids of the table before the call are a prefix of the ids after it). A
  court deletion either changes no reservation or deletes exactly the reservations of the
  deleted court, all of which are cancelled.
\<close>

theorem bookings_never_deleted:
  "(case call of
      DeleteCourt c \<Rightarrow>
        bookings (exec today db call) = bookings db
        \<or> (bookings (exec today db call) = filter (\<lambda>b. b_court_id b \<noteq> c) (bookings db)
           \<and> (\<forall>b \<in> set (bookings db). b_court_id b = c \<longrightarrow> booking_status b = Cancelled))
    | _ \<Rightarrow> \<exists>new. map booking_id (bookings (exec today db call)) = map booking_id (bookings db) @ new)"
proof (cases call)
  case (CreateAdmin u f e)
  then show ?thesis by (auto simp: exec_def sp_create_admin_def split: sum.splits)
next
  case (CreateCourt n d p s)
  then show ?thesis by (auto simp: exec_def sp_create_court_def split: sum.splits)
next
  case (UpdateCourt i n d p s)
  then show ?thesis by (auto simp: exec_def sp_update_court_def Let_def split: sum.splits)
next
  case (DeleteCourt c)
  show ?thesis
  proof (cases "sp_delete_court db c")
    case (Inl e)
    then show ?thesis using DeleteCourt by (simp add: exec_def)
  next
    case (Inr db')
    then have "length (filter (\<lambda>b. b_court_id b = c \<and> booking_status b \<noteq> Cancelled) (bookings db)) = 0"
      and "bookings db' = filter (\<lambda>b. b_court_id b \<noteq> c) (bookings db)"
      by (auto simp: sp_delete_court_def Let_def split: if_splits)
    then show ?thesis using DeleteCourt Inr
      by (auto simp: exec_def filter_empty_conv)
  qed
next
  case (CreateTimeSlot st en n s)
  then show ?thesis by (auto simp: exec_def sp_create_time_slot_def Let_def split: sum.splits)
next
  case (UpdateTimeSlot i st en n s)
  then show ?thesis
    by (auto simp: exec_def sp_update_time_slot_def Let_def split: sum.splits option.splits if_splits)
next
  case (DeleteTimeSlot i)
  show ?thesis
  proof (cases "sp_delete_time_slot db i")
    case (Inl e)
    then show ?thesis using DeleteTimeSlot by (simp add: exec_def)
  next
    case (Inr db')
    then have z: "length (filter (\<lambda>b. b_slot_id b = i) (bookings db)) = 0"
      and "bookings db' = filter (\<lambda>b. b_slot_id b \<noteq> i) (bookings db)"
      by (auto simp: sp_delete_time_slot_def Let_def split: if_splits)
    then show ?thesis using DeleteTimeSlot Inr filter_none[OF z]
      by (simp add: exec_def)
  qed
next
  case (CreateBooking c s d n ph pay nt cby)
  then show ?thesis
    by (auto simp: exec_def sp_create_booking_def insert_booking_def Let_def
          split: sum.splits option.splits if_splits)
next
  case (UpdateBookingStatus i pay st cby)
  then show ?thesis
    by (auto simp: exec_def sp_update_booking_status_def Let_def
          split: sum.splits if_splits dest!: update_bookings_ids)
next
  case (UpdateBookingDetails i n ph nt)
  then show ?thesis
    by (auto simp: exec_def sp_update_booking_details_def Let_def
          split: sum.splits if_splits dest!: update_bookings_ids)
next
  case (CancelBooking i)
  then show ?thesis
    by (auto simp: exec_def sp_cancel_booking_def Let_def
          split: sum.splits if_splits dest!: update_bookings_ids)
qed


theorem bookings_never_deleted_witness:
  "map booking_id (bookings (exec 10 db_booked (DeleteTimeSlot 1))) = [1]
   \<and> map booking_id (bookings (exec 10 db_booked (DeleteCourt 1))) = [1]
   \<and> map booking_id (bookings (exec 10 db_booked (CancelBooking 1))) = [1]
   \<and> map booking_status (bookings db_cancelled) = [Cancelled]
   \<and> bookings (exec 10 db_cancelled (DeleteCourt 1)) = []"
  using bookings_never_deleted [where call = "DeleteTimeSlot 1" and today = 10 and db = db_booked]
        bookings_never_deleted [where call = "DeleteCourt 1" and today = 10 and db = db_booked]
        bookings_never_deleted [where call = "CancelBooking 1" and today = 10 and db = db_booked]
        bookings_never_deleted [where call = "DeleteCourt 1" and today = 10 and db = db_cancelled]
  by (simp add: db_booked_value db_cancelled_value db_setup_value alice_def procedure_defs)

subsection \<open>C4: overlapping windows\<close>

text \<open>
  For well-ordered intervals the three-case test of the script is the half-open test, so
  \<^verbatim>\<open>sp_create_time_slot\<close> fails with \<open>OverlapConflict\<close> exactly when an active slot
  overlaps the new interval, and a successful creation keeps the active slots apart.
\<close>

lemma time_overlap_half_open:
  "p_start < p_end \<Longrightarrow> start_time ts < end_time ts \<Longrightarrow>
     time_overlap p_start p_end ts = half_open_overlap p_start p_end ts"
  by (auto simp: time_overlap_def half_open_overlap_def)

lemma create_overlap_iff:
  assumes "p_start < p_end" and "well_ordered_slots db"
  shows "(sp_create_time_slot db p_start p_end n st = Inl OverlapConflict)
           = (\<exists>ts \<in> set (time_slots db). s_status ts = SlotActive \<and> half_open_overlap p_start p_end ts)"
proof -
  have eq: "filter (\<lambda>ts. s_status ts = SlotActive \<and> time_overlap p_start p_end ts) (time_slots db)
          = filter (\<lambda>ts. s_status ts = SlotActive \<and> half_open_overlap p_start p_end ts) (time_slots db)"
    using assms by (intro filter_cong) (auto simp: well_ordered_slots_def list_all_iff time_overlap_half_open)
  show ?thesis using assms(1)
    by (auto simp: sp_create_time_slot_def Let_def eq filter_empty_conv)
qed

lemma pairwise_apart_snoc:
  "pairwise_apart (xs @ [x]) =
     (pairwise_apart xs \<and> list_all (\<lambda>a. \<not> half_open_overlap (start_time a) (end_time a) x) xs)"
  by (induction xs) auto

lemma create_keeps_apart:
  assumes "sp_create_time_slot db p_start p_end n st = Inr (db', i)"
      and "well_ordered_slots db" and "no_active_overlap db"
  shows "well_ordered_slots db' \<and> no_active_overlap db'"
proof -
  have lt: "p_start < p_end" and
       none: "filter (\<lambda>ts. s_status ts = SlotActive \<and> time_overlap p_start p_end ts) (time_slots db) = []"
   and new: "time_slots db' = time_slots db @
               [\<lparr>slot_id = i, start_time = p_start, end_time = p_end, slot_name = n,
                 s_status = coalesce st SlotActive\<rparr>]"
    using assms(1) by (auto simp: sp_create_time_slot_def Let_def split: if_splits)
  have "\<not> half_open_overlap (start_time a) (end_time a)
            \<lparr>slot_id = i, start_time = p_start, end_time = p_end, slot_name = n, s_status = x\<rparr>"
    if "a \<in> set (time_slots db)" "s_status a = SlotActive" for a x
  proof -
    have "\<not> time_overlap p_start p_end a" using none that by (auto simp: filter_empty_conv)
    moreover have "start_time a < end_time a" using assms(2) that
      by (simp add: well_ordered_slots_def list_all_iff)
    ultimately show ?thesis using lt
      by (auto simp: time_overlap_def half_open_overlap_def)
  qed
  then show ?thesis using assms(2,3) lt new
    by (auto simp: well_ordered_slots_def no_active_overlap_def pairwise_apart_snoc list_all_iff)
qed

text \<open>
  C4 concludes that no two active windows ever overlap. \<^verbatim>\<open>sp_update_time_slot\<close> runs
  the overlap check only when both times are supplied; its other branch sets the status
  without it. After the run \<open>reactivate_events\<close> the slots 08:00--10:00 and
  09:00--11:00 are both active.
\<close>

theorem reactivation_overlap:
  "time_slots (snd (run 10 reactivate_events))
     = [\<lparr>slot_id = 1, start_time = 28800, end_time = 36000, slot_name = ''A'', s_status = SlotActive\<rparr>,
        \<lparr>slot_id = 2, start_time = 32400, end_time = 39600, slot_name = ''B'', s_status = SlotActive\<rparr>]
   \<and> \<not> no_active_overlap (snd (run 10 reactivate_events))"
  by (simp add: reactivate_events_def no_active_overlap_def half_open_overlap_def procedure_defs)

theorem reactivation_overlap_witness:
  "map s_status (time_slots (snd (run 10 reactivate_events))) = [SlotActive, SlotActive]
   \<and> map start_time (time_slots (snd (run 10 reactivate_events))) = [28800, 32400]
   \<and> map end_time (time_slots (snd (run 10 reactivate_events))) = [36000, 39600]"
  using reactivation_overlap by simp

subsection \<open>C6: partial updates of a window\<close>

text \<open>
  C6 states that every supplied field of a slot update is applied, a single time
  included. \<^verbatim>\<open>sp_update_time_slot\<close> writes the times only in the branch where both are
  supplied; with one of them it takes the branch that writes the name and the status,
  and reports success. On the slot 08:00--10:00 of the run, which has no booking, an
  update of the start to 09:00 alone, or of the end to 11:00 alone, succeeds and changes
  nothing.
\<close>

theorem single_time_ignored:
  "map start_time (time_slots db_setup) = [28800]
   \<and> map end_time (time_slots db_setup) = [36000]
   \<and> bookings db_setup = []
   \<and> sp_update_time_slot 10 db_setup 1 (Some 32400) None None None = Inr db_setup
   \<and> sp_update_time_slot 10 db_setup 1 None (Some 39600) None None = Inr db_setup"
  by (simp add: db_setup_value procedure_defs)

theorem single_time_ignored_witness:
  "map start_time (time_slots (exec 10 db_setup (UpdateTimeSlot 1 (Some 32400) None None None))) = [28800]
   \<and> map end_time (time_slots (exec 10 db_setup (UpdateTimeSlot 1 None (Some 39600) None None))) = [36000]"
  using single_time_ignored by (simp add: exec_def)

text \<open>
  The same for every call: with a time missing, no successful update changes a time.
\<close>

lemma one_time_never_applied:
  assumes "p_start = None \<or> p_end = None"
      and "sp_update_time_slot today db i p_start p_end n st = Inr db'"
  shows "map start_time (time_slots db') = map start_time (time_slots db)
       \<and> map end_time (time_slots db') = map end_time (time_slots db)"
  using assms
  by (auto simp: sp_update_time_slot_def Let_def split: if_splits option.splits)

subsection \<open>C10: the count of available slots\<close>

text \<open>
  C10: there are runs after which \<^verbatim>\<open>get_available_slots_count\<close> is negative and
  differs from the number of slots that \<^verbatim>\<open>sp_get_available_time_slots\<close> lists as
  available. The run \<open>deactivate_events\<close> is one: the booking of day 10 is not
  cancelled, its slot is deactivated on day 11, and for the court and day 10 the count is
  0 - 1 while the listing is empty: the count subtracts the bookings of every slot from
  the number of active slots.
\<close>

theorem count_differs_from_listing:
  "\<exists>day0 evs c d b ts.
      b \<in> set (bookings (snd (run day0 evs))) \<and> booking_status b \<noteq> Cancelled
    \<and> b_court_id b = c \<and> booking_date b = d
    \<and> ts \<in> set (time_slots (snd (run day0 evs))) \<and> slot_id ts = b_slot_id b
    \<and> s_status ts = SlotInactive
    \<and> get_available_slots_count (snd (run day0 evs)) c d < 0
    \<and> get_available_slots_count (snd (run day0 evs)) c d
        \<noteq> int (length (filter snd (sp_get_available_time_slots (snd (run day0 evs)) c d)))"
proof -
  let ?ts = "\<lparr>slot_id = 1, start_time = 28800, end_time = 36000,
              slot_name = ''Pagi 1'', s_status = SlotInactive\<rparr>"
  have db: "snd (run 10 deactivate_events) = db_booked\<lparr>time_slots := [?ts]\<rparr>"
    by (simp add: deactivate_events_def db_booked_value db_setup_value alice_def procedure_defs)
  have "get_available_slots_count (db_booked\<lparr>time_slots := [?ts]\<rparr>) 1 10 = - 1"
    by (simp add: get_available_slots_count_def db_booked_value db_setup_value alice_def)
  moreover have "sp_get_available_time_slots (db_booked\<lparr>time_slots := [?ts]\<rparr>) 1 10 = []"
    by (simp add: sp_get_available_time_slots_def db_booked_value db_setup_value)
  moreover have "alice \<in> set (bookings (db_booked\<lparr>time_slots := [?ts]\<rparr>))"
    by (simp add: db_booked_value)
  ultimately show ?thesis
    unfolding db [symmetric]
    by (intro exI[of _ 10] exI[of _ deactivate_events] exI[of _ 1] exI[of _ alice] exI[of _ ?ts])
       (simp add: alice_def db)
qed

theorem count_differs_from_listing_witness:
  "\<exists>day0 evs c d. get_available_slots_count (snd (run day0 evs)) c d < 0"
  using count_differs_from_listing by blast

subsection \<open>C9: the history query\<close>

lemma history_key_order: "(history_key r \<le> history_key r') = history_order r r'"
  by (cases r, cases r') (auto simp: history_key_def history_order_def)

lemma history_sorted: "sorted_wrt history_order (history_select db c s e lim off)"
proof -
  let ?rows = "filter (history_filter c s e) (history_join db)"
  have "sorted (map history_key (sort_key history_key ?rows))"
    by (rule sorted_sort_key)
  then have srt: "sorted_wrt history_order (sort_key history_key ?rows)"
    by (simp add: sorted_map history_key_order)
  show ?thesis
    using srt sorted_wrt_take[of history_order] sorted_wrt_drop[of history_order]
    by (auto simp: history_select_def Let_def split: option.splits)
qed

lemma find_by_id: "k \<in> set (map f xs) \<Longrightarrow> \<exists>y. find (\<lambda>x. f x = k) xs = Some y"
  by (cases "find (\<lambda>x. f x = k) xs") (auto simp: find_None_iff)

lemma history_join_all: "references_resolve db \<Longrightarrow> map fst (history_join db) = bookings db"
proof -
  have "list_all (\<lambda>b. b_court_id b \<in> set (map court_id cs)
                \<and> b_slot_id b \<in> set (map slot_id tss)
                \<and> created_by b \<in> set (map admin_id ads)) bs \<Longrightarrow>
        map fst (concat (map (\<lambda>b.
       case find (\<lambda>c. court_id c = b_court_id b) cs of
         None \<Rightarrow> []
       | Some c \<Rightarrow>
          (case find (\<lambda>ts. slot_id ts = b_slot_id b) tss of
             None \<Rightarrow> []
           | Some ts \<Rightarrow>
              (case find (\<lambda>a. admin_id a = created_by b) ads of
                 None \<Rightarrow> []
               | Some a \<Rightarrow> [(b, c, ts, a)]))) bs)) = bs"
    for cs :: "court list" and tss :: "time_slot list" and ads :: "admin list" and bs :: "booking list"
  proof (induction bs)
    case Nil
    then show ?case by simp
  next
    case (Cons b bs)
    obtain c ts a where "find (\<lambda>c. court_id c = b_court_id b) cs = Some c"
      "find (\<lambda>ts. slot_id ts = b_slot_id b) tss = Some ts"
      "find (\<lambda>a. admin_id a = created_by b) ads = Some a"
      using Cons.prems find_by_id[of "b_court_id b" court_id cs]
        find_by_id[of "b_slot_id b" slot_id tss] find_by_id[of "created_by b" admin_id ads]
      by auto
    then show ?case using Cons by simp
  qed
  then show "references_resolve db \<Longrightarrow> map fst (history_join db) = bookings db"
    by (simp add: references_resolve_def history_join_def)
qed

text \<open>
  C9 states that a history query without limit and offset returns the full filtered
  result. The procedure does, but the controller \<^verbatim>\<open>getBookingHistory\<close> calls it with
  limit 50 and offset 0 when the caller gives none: of the 51 bookings of the run
  \<open>many_events\<close> it returns 50.
\<close>

theorem history_default_limit_counterexample:
  "length (sp_get_booking_history db_many None None None None None) = 51
   \<and> length (fst (getBookingHistory db_many None None None None None)) = 50"
  by code_simp

text \<open>
  C9, as the code has it. With \<^verbatim>\<open>p_limit\<close> NULL the procedure returns the whole
  filtered join (as a multiset, and every booking has a row of the join when the foreign
  keys hold); whatever the limit and the offset, the rows come by date descending and then
  by start time ascending; and the controller, called without limit and offset, returns
  the first 50 rows of the procedure's full result.
\<close>

theorem history_limit:
  "mset (history_select db c s e None off) = mset (filter (history_filter c s e) (history_join db))
   \<and> sorted_wrt history_order (history_select db c s e lim off)
   \<and> (references_resolve db \<longrightarrow> map fst (history_join db) = bookings db)
   \<and> sp_get_booking_history db c s e None off
        = map history_columns (sort_key history_key (filter (history_filter c s e) (history_join db)))
   \<and> fst (getBookingHistory db c s e None None) = take 50 (sp_get_booking_history db c s e None off)"
  using history_sorted[of db c s e lim off] history_join_all[of db]
  by (simp add: history_select_def sp_get_booking_history_def getBookingHistory_def take_map)

theorem history_limit_witness:
  "references_resolve db_booked
   \<and> map fst (history_join db_booked) = [alice]
   \<and> map h_booking_id (sp_get_booking_history db_booked None None None None None) = [1]
   \<and> map h_booking_id (fst (getBookingHistory db_booked None None None None None)) = [1]"
  using history_limit [of db_booked None None None None None]
  by (simp add: db_booked_value db_setup_value alice_def references_resolve_def history_join_def
        history_filter_def history_columns_def)

text \<open>
  The foreign keys hold in the empty database and every call keeps them, so they hold
  after every run.
\<close>

lemma image_update_ids:
  assumes "\<And>x. f (g x) = f x"
  shows "f ` (g ` (A \<inter> {c. P c}) \<union> A \<inter> {c. \<not> P c}) = f ` A"
proof
  show "f ` (g ` (A \<inter> {c. P c}) \<union> A \<inter> {c. \<not> P c}) \<subseteq> f ` A"
    using assms by (auto simp: image_iff)
  show "f ` A \<subseteq> f ` (g ` (A \<inter> {c. P c}) \<union> A \<inter> {c. \<not> P c})"
  proof
    fix y assume "y \<in> f ` A"
    then obtain x where x: "x \<in> A" "y = f x" by auto
    show "y \<in> f ` (g ` (A \<inter> {c. P c}) \<union> A \<inter> {c. \<not> P c})"
    proof (cases "P x")
      case True
      then have "g x \<in> g ` (A \<inter> {c. P c})" using x by auto
      then show ?thesis using x assms[of x] by (metis UnI1 image_eqI)
    next
      case False
      then show ?thesis using x by auto
    qed
  qed
qed

lemma rr_updates:
  assumes "references_resolve db" and "update_bookings cond f (bookings db) = Inr bs"
    and "\<And>b. b_court_id (f b) = b_court_id b \<and> b_slot_id (f b) = b_slot_id b \<and> created_by (f b) = created_by b"
  shows "references_resolve (db\<lparr>bookings := bs\<rparr>)"
  using assms(1,3) update_bookings_Inr[OF assms(2)]
  by (auto simp: references_resolve_def list_all_iff)

lemma references_resolve_exec: "references_resolve db \<Longrightarrow> references_resolve (exec today db call)"
proof (cases call)
  case (CreateAdmin u f e)
  assume "references_resolve db"
  then show ?thesis using CreateAdmin 
    by (auto simp: exec_def references_resolve_def sp_create_admin_def list_all_iff)
next
  case (CreateCourt n d p s)
  assume "references_resolve db"
  then show ?thesis using CreateCourt
    by (auto simp: exec_def references_resolve_def sp_create_court_def list_all_iff)
next
  case (UpdateCourt i n d p s)
  assume rr: "references_resolve db"
  then show ?thesis using UpdateCourt
    by (auto simp: exec_def references_resolve_def sp_update_court_def Let_def list_all_iff
          image_update_ids)
next
  case (DeleteCourt c)
  assume "references_resolve db"
  then show ?thesis using DeleteCourt
    by (fastforce simp: exec_def references_resolve_def sp_delete_court_def Let_def list_all_iff
          image_iff split: if_splits)
next
  case (CreateTimeSlot st en n s)
  assume "references_resolve db"
  then show ?thesis using CreateTimeSlot
    by (auto simp: exec_def references_resolve_def sp_create_time_slot_def Let_def list_all_iff)
next
  case (UpdateTimeSlot i st en n s)
  assume rr: "references_resolve db"
  then show ?thesis using UpdateTimeSlot
    by (auto simp: exec_def references_resolve_def sp_update_time_slot_def Let_def list_all_iff
          image_update_ids split: option.splits)
next
  case (DeleteTimeSlot i)
  assume "references_resolve db"
  then show ?thesis using DeleteTimeSlot
    by (fastforce simp: exec_def references_resolve_def sp_delete_time_slot_def Let_def list_all_iff
          filter_empty_conv image_iff split: if_splits)
next
  case (CreateBooking c s d n ph pay nt cby)
  assume "references_resolve db"
  then show ?thesis using CreateBooking
    by (auto simp: exec_def references_resolve_def sp_create_booking_def insert_booking_def
          tr_validate_booking_insert_def Let_def find_None_iff
          split: sum.splits option.splits if_splits)
next
  case (UpdateBookingStatus i pay st cby)
  assume rr: "references_resolve db"
  show ?thesis using UpdateBookingStatus rr
    by (auto simp: exec_def sp_update_booking_status_def Let_def split: sum.splits intro!: rr_updates)
next
  case (UpdateBookingDetails i n ph nt)
  assume rr: "references_resolve db"
  show ?thesis using UpdateBookingDetails rr
    by (auto simp: exec_def sp_update_booking_details_def Let_def split: sum.splits intro!: rr_updates)
next
  case (CancelBooking i)
  assume rr: "references_resolve db"
  show ?thesis using CancelBooking rr
    by (auto simp: exec_def sp_cancel_booking_def Let_def split: sum.splits intro!: rr_updates)
qed


lemma references_resolve_run: "references_resolve (snd (run day0 evs))"
proof -
  have "references_resolve (snd w) \<Longrightarrow> references_resolve (snd (foldl step w evs))" for w
  proof (induction evs arbitrary: w)
    case Nil
    then show ?case by simp
  next
    case (Cons ev evs)
    obtain t db where w: "w = (t, db)" by (cases w)
    have "references_resolve (snd (step w ev))"
      using Cons.prems w references_resolve_exec by (cases ev) auto
    then show ?case using Cons.IH by simp
  qed
  then show ?thesis by (simp add: run_def empty_db_def references_resolve_def)
qed

end
